theory Spec2Isabelle
  imports Complex_Main
begin

section \<open>CoreXY kinematics for an axis triplet (klippy/kinematics/corexy\_abc.py)\<close>

text \<open>
  A shallow embedding of the class \<open>CoreXYKinematicsABC\<close>. Python floats are
  idealised as \<^typ>\<open>real\<close> (no rounding, no NaN, no infinities), Python ints as
  \<^typ>\<open>int\<close>. Every exception of the source is a value of \<open>error\<close>. The objects the
  class only talks to (rails, steppers, endstops, the toolhead, the homing state) live in
  modules that are not part of this file; what the class reads from them is a field of a
  record, and every method the class calls on them for its effect is recorded, in order,
  as a \<open>call\<close>.
\<close>

subsection \<open>Exceptions and Python sequences\<close>

datatype error =
    Exception string            \<comment> \<open>\<open>raise Exception(msg)\<close> in the constructor\<close>
  | MoveError "string option"   \<comment> \<open>\<open>raise move.move_error(msg)\<close>; \<open>None\<close> is the call without argument\<close>
  | ConfigError string          \<comment> \<open>raised by the configuration object\<close>
  | IndexError
  | KeyError
  | ValueError
  | TypeError
  | ZeroDivisionError

text \<open>\<open>xs[i]\<close> for a literal, non-negative index.\<close>

definition py_get :: "'a list \<Rightarrow> nat \<Rightarrow> error + 'a" where
  "py_get xs i = (if i < length xs then Inr (xs ! i) else Inl IndexError)"

text \<open>An index held in a variable may be negative: \<open>-1\<close> is the last slot. The slot
  that index \<open>i\<close> names in a sequence of \<open>len\<close> elements, if any.\<close>

definition py_pos :: "nat \<Rightarrow> int \<Rightarrow> nat option" where
  "py_pos len i =
     (if 0 \<le> i \<and> i < int len then Some (nat i)
      else if i < 0 \<and> - int len \<le> i then Some (nat (int len + i))
      else None)"

definition py_index :: "'a list \<Rightarrow> int \<Rightarrow> error + 'a" where
  "py_index xs i =
     (case py_pos (length xs) i of None \<Rightarrow> Inl IndexError | Some j \<Rightarrow> Inr (xs ! j))"

definition py_set :: "'a list \<Rightarrow> int \<Rightarrow> 'a \<Rightarrow> error + 'a list" where
  "py_set xs i v =
     (case py_pos (length xs) i of None \<Rightarrow> Inl IndexError | Some j \<Rightarrow> Inr (xs[j := v]))"

subsection \<open>Collaborators\<close>

type_synonym stepper = string
type_synonym endstop = string
type_synonym trapq = nat

text \<open>The named tuple returned by \<open>rail.get_homing_info()\<close>; \<open>home\<close> reads two fields.\<close>

record homing_info =
  position_endstop :: real
  positive_dir :: bool

text \<open>A \<open>PrinterRail\<close>, by the getters the class calls on it.\<close>

record rail =
  get_name :: string
  get_steppers :: "stepper list"
  get_endstops :: "(endstop \<times> string) list"
  get_range :: "real \<times> real"
  get_homing_info :: homing_info

text \<open>\<open>toolhead.Coord(*values, e=0.)\<close>: the positional components and the \<open>e\<close> field.\<close>

datatype coord = Coord "real list" real

text \<open>Calls made on collaborators for their effect.\<close>

datatype call =
    Add_stepper endstop stepper           \<comment> \<open>\<open>endstop.add_stepper(s)\<close>\<close>
  | Setup_itersolve rail string string    \<comment> \<open>\<open>rail.setup_itersolve(alloc_func, arg)\<close>\<close>
  | Set_trapq stepper trapq               \<comment> \<open>\<open>s.set_trapq(tq)\<close>\<close>
  | Register_step_generator stepper       \<comment> \<open>\<open>toolhead.register_step_generator(s.generate_steps)\<close>\<close>
  | Register_event_handler string         \<comment> \<open>\<open>printer.register_event_handler(event, self._motor_off)\<close>\<close>
  | Rail_set_position rail "real list"    \<comment> \<open>\<open>rail.set_position(newpos)\<close>\<close>
  | Home_rails "rail list" "real option list" "real option list"
      \<comment> \<open>\<open>homing_state.home_rails(rails, forcepos, homepos)\<close>\<close>

text \<open>
  A \<open>Move\<close> of the toolhead. \<open>end_pos\<close>, \<open>axes_d\<close> and \<open>move_d\<close> are the attributes
  \<open>check_move\<close> reads. The class \<open>Move\<close> is defined in toolhead.py, which is not part of
  this file; the two caps are the ones the specification speaks of.
\<close>

record move =
  end_pos :: "real list"
  axes_d :: "real list"
  move_d :: real
  cap_velocity :: real
  cap_accel :: real

text \<open>
  Modelled from the spec: \<open>Move.limit_speed(speed, accel)\<close> of toolhead.py, which is
  missing from the sources. The specification: the move is ``capped to at most those
  scaled values (never raising limits above the move's own pre-existing caps -- the cap
  is a minimum-of operation)''.
\<close>

definition limit_speed :: "move \<Rightarrow> real \<Rightarrow> real \<Rightarrow> move" where
  "limit_speed m speed accel =
     m\<lparr>cap_velocity := min (cap_velocity m) speed, cap_accel := min (cap_accel m) accel\<rparr>"

subsection \<open>The kinematics object\<close>

text \<open>\<open>axes_ids\<close> is a tuple by default and a list in the comments of the source;
  \<open>deepcopy\<close> keeps which, and the two print differently.\<close>

datatype py_seq = PyTuple "int list" | PyList "int list"

fun items :: "py_seq \<Rightarrow> int list" where
  "items (PyTuple xs) = xs"
| "items (PyList xs) = xs"

record kinematics =
  axis_config :: py_seq
  axis_names :: string
  axis_count :: nat
  axis :: "int list"
  dummy_axes :: "int list"
  dummy_axes_names :: string
  toolhead_axis_count :: nat
  trapq_of :: trapq
  rails :: "rail list"
  max_z_velocity :: real
  max_z_accel :: real
  limits :: "(real \<times> real) list"
  axes_min :: coord
  axes_max :: coord

subsection \<open>Limits\<close>

definition reset_limits :: "kinematics \<Rightarrow> kinematics" where
  "reset_limits k = k\<lparr>limits := replicate 3 (1, -1)\<rparr>"

definition motor_off :: "kinematics \<Rightarrow> real \<Rightarrow> kinematics" where
  "motor_off k print_time = reset_limits k"

definition note_z_not_homed :: "kinematics \<Rightarrow> error + kinematics" where
  "note_z_not_homed k =
     (if 2 < length (limits k) then Inr (k\<lparr>limits := (limits k)[2 := (1, -1)]\<rparr>)
      else Inl IndexError)"

text \<open>
  \<open>set_position\<close>: the loop over \<open>enumerate(self.rails)\<close>, from index \<open>i\<close> on. The
  result is the object and the calls made on the rails; an \<open>IndexError\<close> of
  \<open>self.limits[i] = ...\<close> ends the method.
\<close>

fun set_position_loop ::
  "kinematics \<Rightarrow> real list \<Rightarrow> nat set \<Rightarrow> nat \<Rightarrow> rail list \<Rightarrow> error + kinematics \<times> call list" where
  "set_position_loop k newpos homing_axes i [] = Inr (k, [])"
| "set_position_loop k newpos homing_axes i (r # rs) =
     (if i \<in> homing_axes then
        (if i < length (limits k) then
           (case set_position_loop (k\<lparr>limits := (limits k)[i := get_range r]\<rparr>)
                   newpos homing_axes (Suc i) rs of
              Inl e \<Rightarrow> Inl e
            | Inr (k', cs) \<Rightarrow> Inr (k', Rail_set_position r newpos # cs))
         else Inl IndexError)
      else
        (case set_position_loop k newpos homing_axes (Suc i) rs of
           Inl e \<Rightarrow> Inl e
         | Inr (k', cs) \<Rightarrow> Inr (k', Rail_set_position r newpos # cs)))"

definition set_position :: "kinematics \<Rightarrow> real list \<Rightarrow> nat set \<Rightarrow> error + kinematics \<times> call list" where
  "set_position k newpos homing_axes = set_position_loop k newpos homing_axes 0 (rails k)"

subsection \<open>Forward transform\<close>

text \<open>The list comprehension \<open>[stepper_positions[rail.get_name()] for rail in self.rails]\<close>.\<close>

fun lookup_positions :: "(string \<rightharpoonup> real) \<Rightarrow> rail list \<Rightarrow> error + real list" where
  "lookup_positions sp [] = Inr []"
| "lookup_positions sp (r # rs) =
     (case sp (get_name r) of
        None \<Rightarrow> Inl KeyError
      | Some p \<Rightarrow> (case lookup_positions sp rs of Inl e \<Rightarrow> Inl e | Inr ps \<Rightarrow> Inr (p # ps)))"

definition calc_position :: "kinematics \<Rightarrow> (string \<rightharpoonup> real) \<Rightarrow> error + real list" where
  "calc_position k stepper_positions =
     (case lookup_positions stepper_positions (rails k) of
        Inl e \<Rightarrow> Inl e
      | Inr pos \<Rightarrow>
          (case pos of
             p0 # p1 # p2 # _ \<Rightarrow> Inr [0.5 * (p0 + p1), 0.5 * (p0 - p1), p2]
           | _ \<Rightarrow> Inl IndexError))"

subsection \<open>Move checks\<close>

text \<open>One round of the loop of \<open>_check_endstops\<close>. \<open>and\<close> and \<open>or\<close> short-circuit: the end
  position and the limit are read only when the displacement is nonzero.\<close>

definition check_axis :: "kinematics \<Rightarrow> move \<Rightarrow> nat \<Rightarrow> error + unit" where
  "check_axis k m i =
     (case py_get (axes_d m) i of
        Inl e \<Rightarrow> Inl e
      | Inr d \<Rightarrow>
          if d \<noteq> 0 then
            (case py_get (end_pos m) i of
               Inl e \<Rightarrow> Inl e
             | Inr p \<Rightarrow>
                 (case py_get (limits k) i of
                    Inl e \<Rightarrow> Inl e
                  | Inr (lo, hi) \<Rightarrow>
                      if p < lo \<or> p > hi then
                        (if lo > hi then Inl (MoveError (Some ''Must home axis first''))
                         else Inl (MoveError None))
                      else Inr ()))
          else Inr ())"

fun check_axes :: "kinematics \<Rightarrow> move \<Rightarrow> nat list \<Rightarrow> error + unit" where
  "check_axes k m [] = Inr ()"
| "check_axes k m (i # is) =
     (case check_axis k m i of Inl e \<Rightarrow> Inl e | Inr _ \<Rightarrow> check_axes k m is)"

definition check_endstops :: "kinematics \<Rightarrow> move \<Rightarrow> error + unit" where
  "check_endstops k m = check_axes k m [0, 1, 2]"

text \<open>The condition of the first \<open>if\<close> of \<open>check_move\<close>, after
  \<open>xpos, ypos = move.end_pos[:2]\<close>.\<close>

definition xy_outside :: "kinematics \<Rightarrow> move \<Rightarrow> error + bool" where
  "xy_outside k m =
     (case take 2 (end_pos m) of
        [xpos, ypos] \<Rightarrow>
          (case py_get (limits k) 0 of
             Inl e \<Rightarrow> Inl e
           | Inr (l0, h0) \<Rightarrow>
               if xpos < l0 \<or> xpos > h0 then Inr True
               else
                 (case py_get (limits k) 1 of
                    Inl e \<Rightarrow> Inl e
                  | Inr (l1, h1) \<Rightarrow> Inr (ypos < l1 \<or> ypos > h1)))
      | _ \<Rightarrow> Inl ValueError)"

text \<open>The part of \<open>check_move\<close> from \<open>if not move.axes_d[2]\<close> on. \<open>ls\<close> is the method
  \<open>move.limit_speed\<close>.\<close>

definition check_z :: "(move \<Rightarrow> real \<Rightarrow> real \<Rightarrow> move) \<Rightarrow> kinematics \<Rightarrow> move \<Rightarrow> error + move" where
  "check_z ls k m =
     (case py_get (axes_d m) 2 of
        Inl e \<Rightarrow> Inl e
      | Inr d \<Rightarrow>
          if \<not> d \<noteq> 0 then Inr m
          else
            (case check_endstops k m of
               Inl e \<Rightarrow> Inl e
             | Inr _ \<Rightarrow>
                 if \<bar>d\<bar> = 0 then Inl ZeroDivisionError
                 else
                   (let z_ratio = move_d m / \<bar>d\<bar>
                    in Inr (ls m (max_z_velocity k * z_ratio) (max_z_accel k * z_ratio)))))"

definition check_move :: "(move \<Rightarrow> real \<Rightarrow> real \<Rightarrow> move) \<Rightarrow> kinematics \<Rightarrow> move \<Rightarrow> error + move" where
  "check_move ls k m =
     (case xy_outside k m of
        Inl e \<Rightarrow> Inl e
      | Inr outside \<Rightarrow>
          (case (if outside then check_endstops k m else Inr ()) of
             Inl e \<Rightarrow> Inl e
           | Inr _ \<Rightarrow> check_z ls k m))"

subsection \<open>Status\<close>

record status =
  homed_axes :: string
  axis_minimum :: coord
  axis_maximum :: coord

definition get_status :: "kinematics \<Rightarrow> real \<Rightarrow> status" where
  "get_status k eventtime =
     \<lparr>homed_axes = map fst (filter (\<lambda>(a, (l, h)). l \<le> h) (zip ''xyz'' (limits k))),
      axis_minimum = axes_min k,
      axis_maximum = axes_max k\<rparr>"

subsection \<open>Homing\<close>

text \<open>
  The body of the loop of \<open>home\<close> for one axis, up to the call of
  \<open>homing_state.home_rails\<close>, which is the result. \<open>forcepos[axis] -= d\<close> reads the slot
  and writes it back.
\<close>

definition home_axis :: "kinematics \<Rightarrow> int \<Rightarrow> error + call" where
  "home_axis k ax =
     (case py_index (rails k) ax of
        Inl e \<Rightarrow> Inl e
      | Inr rail \<Rightarrow>
          (let (position_min, position_max) = get_range rail;
               hi = get_homing_info rail
           in case py_set [None, None, None, None] ax (Some (position_endstop hi)) of
                Inl e \<Rightarrow> Inl e
              | Inr homepos \<Rightarrow>
                  (case py_index homepos ax of
                     Inl e \<Rightarrow> Inl e
                   | Inr None \<Rightarrow> Inl TypeError
                   | Inr (Some v) \<Rightarrow>
                       (case py_set homepos ax
                               (Some (if positive_dir hi
                                      then v - 1.5 * (position_endstop hi - position_min)
                                      else v + 1.5 * (position_max - position_endstop hi))) of
                          Inl e \<Rightarrow> Inl e
                        | Inr forcepos \<Rightarrow> Inr (Home_rails [rail] forcepos homepos)))))"

text \<open>
  \<open>home\<close> over \<open>homing_state.get_axes()\<close>: the calls of \<open>home_rails\<close> made, in order, and
  the exception that ended the loop, if any. \<open>home_rails\<close> belongs to the homing state,
  which is not part of this file: each call is taken to return, and the range and the
  homing information of a rail are fixed data of the rail.
\<close>

fun home :: "kinematics \<Rightarrow> int list \<Rightarrow> call list \<times> error option" where
  "home k [] = ([], None)"
| "home k (ax # axs) =
     (case home_axis k ax of
        Inl e \<Rightarrow> ([], Some e)
      | Inr c \<Rightarrow> (case home k axs of (cs, r) \<Rightarrow> (c # cs, r)))"

subsection \<open>Construction\<close>

text \<open>What the constructor reads from the toolhead and from the configuration.\<close>

record toolhead =
  th_axis_count :: nat
  th_get_trapq :: "string option \<Rightarrow> trapq"   \<comment> \<open>\<open>get_trapq(axes=...)\<close>, \<open>None\<close> for \<open>get_trapq()\<close>\<close>
  th_get_max_velocity :: "real \<times> real"

record config =
  lookup_multi_rail :: "string \<Rightarrow> error + rail"
    \<comment> \<open>\<open>stepper.LookupMultiRail(config.getsection(name))\<close>\<close>
  getfloat :: "string \<Rightarrow> real \<Rightarrow> real \<Rightarrow> real \<Rightarrow> error + real"
    \<comment> \<open>\<open>config.getfloat(option, default, above=a, maxval=m)\<close>\<close>

text \<open>\<open>str\<close> of an int and of a tuple or list of ints, for the message of the exception.\<close>

fun digits :: "nat \<Rightarrow> string" where
  "digits n =
     (if n < 10 then [char_of (48 + n)] else digits (n div 10) @ [char_of (48 + n mod 10)])"

definition str_int :: "int \<Rightarrow> string" where
  "str_int i = (if i < 0 then ''-'' @ digits (nat (- i)) else digits (nat i))"

fun join_comma :: "string list \<Rightarrow> string" where
  "join_comma [] = []"
| "join_comma [x] = x"
| "join_comma (x # y # ys) = x @ '', '' @ join_comma (y # ys)"

fun str_seq :: "py_seq \<Rightarrow> string" where
  "str_seq (PyTuple [x]) = ''('' @ str_int x @ '',)''"
| "str_seq (PyTuple xs) = ''('' @ join_comma (map str_int xs) @ '')''"
| "str_seq (PyList xs) = ''['' @ join_comma (map str_int xs) @ '']''"

text \<open>\<open>str.lower()\<close> on the ASCII letters.\<close>

definition lower_char :: "char \<Rightarrow> char" where
  "lower_char c =
     (let n = (of_char c :: nat) in if 65 \<le> n \<and> n \<le> 90 then char_of (n + 32) else c)"

definition mismatch_msg :: "py_seq \<Rightarrow> string \<Rightarrow> string" where
  "mismatch_msg ids names =
     ''CartKinematicsABC: The amount of axis indexes in '' @ [CHR 0x27] @ str_seq ids @ [CHR 0x27]
     @ '' does not match the count of axis names '' @ [CHR 0x27] @ names @ [CHR 0x27] @ ''.''"

text \<open>A list comprehension whose element may raise stops at the first exception.\<close>

fun collect :: "('a \<Rightarrow> error + 'b) \<Rightarrow> 'a list \<Rightarrow> error + 'b list" where
  "collect f [] = Inr []"
| "collect f (x # xs) =
     (case f x of
        Inl e \<Rightarrow> Inl e
      | Inr y \<Rightarrow> (case collect f xs of Inl e \<Rightarrow> Inl e | Inr ys \<Rightarrow> Inr (y # ys)))"

text \<open>
  The axis triplet and its dummy axes. \<open>list(set(self.axis).difference(self.axis_config))\<close>
  lists the set in the order CPython iterates it: by slot of its table of eight, which
  for three consecutive ints is by \<open>i mod 8\<close>. So the triplet \<open>[6, 7, 8]\<close> without
  \<open>6\<close> gives \<open>[8, 7]\<close>.
\<close>

definition resolve_axes :: "py_seq \<Rightarrow> error + int list \<times> int list \<times> string" where
  "resolve_axes axes_ids =
     (case py_get (items axes_ids) 0 of
        Inl e \<Rightarrow> Inl e
      | Inr a0 \<Rightarrow>
          (let triplet_number = a0 div 3;
               ax = map (\<lambda>j. 3 * triplet_number + j) [0, 1, 2];
               dummy = sort_key (\<lambda>i. i mod 8) (filter (\<lambda>i. i \<notin> set (items axes_ids)) ax)
           in case collect (py_index ''XYZABCUVW'') dummy of
                Inl e \<Rightarrow> Inl e
              | Inr names \<Rightarrow> Inr (ax, dummy, names)))"

text \<open>Effects and a result: the calls made so far, and the value or the exception.\<close>

definition and_then ::
  "call list \<times> (error + 'a) \<Rightarrow> ('a \<Rightarrow> call list \<times> (error + 'b)) \<Rightarrow> call list \<times> (error + 'b)" where
  "and_then r f =
     (case r of
        (cs, Inl e) \<Rightarrow> (cs, Inl e)
      | (cs, Inr a) \<Rightarrow> (case f a of (cs', r') \<Rightarrow> (cs @ cs', r')))"

definition pure_step :: "error + 'a \<Rightarrow> call list \<times> (error + 'a)" where
  "pure_step r = ([], r)"

text \<open>\<open>for s in steppers: target.get_endstops()[0][0].add_stepper(s)\<close>\<close>

fun add_steppers :: "rail \<Rightarrow> stepper list \<Rightarrow> call list \<times> (error + unit)" where
  "add_steppers target [] = ([], Inr ())"
| "add_steppers target (s # ss) =
     (case get_endstops target of
        [] \<Rightarrow> ([], Inl IndexError)
      | (es, _) # _ \<Rightarrow> (case add_steppers target ss of (cs, r) \<Rightarrow> (Add_stepper es s # cs, r)))"

definition cross_register :: "rail list \<Rightarrow> call list \<times> (error + unit)" where
  "cross_register rs =
     and_then (pure_step (py_get rs 1)) (\<lambda>r1.
     and_then (pure_step (py_get rs 0)) (\<lambda>r0.
     and_then (add_steppers r0 (get_steppers r1)) (\<lambda>_.
     add_steppers r1 (get_steppers r0))))"

definition setup_itersolve :: "rail list \<Rightarrow> call list \<times> (error + unit)" where
  "setup_itersolve rs =
     and_then (pure_step (py_get rs 0)) (\<lambda>r0.
     and_then ([Setup_itersolve r0 ''corexy_stepper_alloc'' ''+''], Inr ()) (\<lambda>_.
     and_then (pure_step (py_get rs 1)) (\<lambda>r1.
     and_then ([Setup_itersolve r1 ''corexy_stepper_alloc'' ''-''], Inr ()) (\<lambda>_.
     and_then (pure_step (py_get rs 2)) (\<lambda>r2.
     ([Setup_itersolve r2 ''cartesian_stepper_alloc'' ''z''], Inr ()))))))"

definition all_steppers :: "rail list \<Rightarrow> stepper list" where
  "all_steppers rs = concat (map get_steppers rs)"

definition register_steppers :: "toolhead \<Rightarrow> stepper list \<Rightarrow> call list" where
  "register_steppers th ss =
     concat (map (\<lambda>s. [Set_trapq s (th_get_trapq th None), Register_step_generator s]) ss)"

text \<open>
  The constructor, statement by statement. \<open>config.get_printer()\<close> and \<open>logging.info\<close>
  leave no trace in the object; the toolhead's \<open>get_trapq\<close> and \<open>get_max_velocity\<close> and
  the methods recorded as calls are taken to return. The result is the calls made up to
  the exception, or up to the end, and the exception or the object.
\<close>

definition init ::
  "toolhead \<Rightarrow> config \<Rightarrow> trapq option \<Rightarrow> py_seq \<Rightarrow> string \<Rightarrow> call list \<times> (error + kinematics)" where
  "init th cfg tq axes_ids axis_set_letters =
     (if length (items axes_ids) \<noteq> length axis_set_letters
      then ([], Inl (Exception (mismatch_msg axes_ids axis_set_letters)))
      else
        and_then (pure_step (resolve_axes axes_ids)) (\<lambda>(ax, dummy, dummy_names).
        and_then (pure_step (collect (\<lambda>n. lookup_multi_rail cfg (''stepper_'' @ [n]))
                               (map lower_char axis_set_letters))) (\<lambda>rs.
        and_then (cross_register rs) (\<lambda>_.
        and_then (setup_itersolve rs) (\<lambda>_.
        and_then (register_steppers th (all_steppers rs)
                    @ [Register_event_handler ''stepper_enable:motor_off''], Inr ()) (\<lambda>_.
        (case th_get_max_velocity th of (max_velocity, max_accel) \<Rightarrow>
        and_then (pure_step (getfloat cfg ''max_z_velocity'' max_velocity 0 max_velocity)) (\<lambda>mzv.
        and_then (pure_step (getfloat cfg ''max_z_accel'' max_accel 0 max_accel)) (\<lambda>mza.
        ([], Inr
          (reset_limits
            \<lparr>axis_config = axes_ids,
             axis_names = axis_set_letters,
             axis_count = length axis_set_letters,
             axis = ax,
             dummy_axes = dummy,
             dummy_axes_names = dummy_names,
             toolhead_axis_count = th_axis_count th,
             trapq_of = (case tq of None \<Rightarrow> th_get_trapq th (Some axis_set_letters) | Some t \<Rightarrow> t),
             rails = rs,
             max_z_velocity = mzv,
             max_z_accel = mza,
             limits = [],
             axes_min = Coord (map (\<lambda>r. fst (get_range r)) rs) 0,
             axes_max = Coord (map (\<lambda>r. snd (get_range r)) rs) 0\<rparr>)))))))))))"

section \<open>Vocabulary of the properties\<close>

text \<open>The end position on axis \<open>i\<close> lies outside the limit of axis \<open>i\<close>.\<close>

definition outside :: "kinematics \<Rightarrow> move \<Rightarrow> nat \<Rightarrow> bool" where
  "outside k m i = (end_pos m ! i < fst (limits k ! i) \<or> end_pos m ! i > snd (limits k ! i))"

text \<open>The move displaces axis \<open>i\<close> and ends outside its limit.\<close>

definition violates :: "kinematics \<Rightarrow> move \<Rightarrow> nat \<Rightarrow> bool" where
  "violates k m i = (axes_d m ! i \<noteq> 0 \<and> outside k m i)"

text \<open>The limit of axis \<open>i\<close> is in the unhomed state, \<open>low > high\<close>.\<close>

definition unhomed :: "kinematics \<Rightarrow> nat \<Rightarrow> bool" where
  "unhomed k i = (fst (limits k ! i) > snd (limits k ! i))"

text \<open>The argument of \<open>move.move_error\<close> that the state of axis \<open>i\<close> calls for.\<close>

definition reason :: "kinematics \<Rightarrow> nat \<Rightarrow> string option" where
  "reason k i = (if unhomed k i then Some ''Must home axis first'' else None)"

text \<open>The lowest axis that the move displaces to outside its limit, when there is one.\<close>

definition first_violation :: "kinematics \<Rightarrow> move \<Rightarrow> nat" where
  "first_violation k m = (if violates k m 0 then 0 else if violates k m 1 then 1 else 2)"

text \<open>The object has its three limits, and the move has the three components that
  \<open>check_move\<close> indexes.\<close>

definition well_formed :: "kinematics \<Rightarrow> move \<Rightarrow> bool" where
  "well_formed k m =
     (length (limits k) = 3 \<and> 3 \<le> length (end_pos m) \<and> 3 \<le> length (axes_d m))"

section \<open>A machine to run the model on\<close>

text \<open>Three rails \<open>stepper_a\<close>, \<open>stepper_b\<close>, \<open>stepper_c\<close> for the axes \<open>ABC\<close>; the second
  rail has two steppers and homes towards its maximum.\<close>

definition rail_a :: rail where
  "rail_a = \<lparr>get_name = ''stepper_a'', get_steppers = [''stepper_a''],
     get_endstops = [(''endstop_a'', ''stepper_a'')], get_range = (0, 200),
     get_homing_info = \<lparr>position_endstop = 0, positive_dir = False\<rparr>\<rparr>"

definition rail_b :: rail where
  "rail_b = \<lparr>get_name = ''stepper_b'', get_steppers = [''stepper_b'', ''stepper_b1''],
     get_endstops = [(''endstop_b'', ''stepper_b'')], get_range = (0, 200),
     get_homing_info = \<lparr>position_endstop = 200, positive_dir = True\<rparr>\<rparr>"

definition rail_c :: rail where
  "rail_c = \<lparr>get_name = ''stepper_c'', get_steppers = [''stepper_c''],
     get_endstops = [(''endstop_c'', ''stepper_c'')], get_range = (-5, 100),
     get_homing_info = \<lparr>position_endstop = 0, positive_dir = False\<rparr>\<rparr>"

definition toolhead_ex :: toolhead where
  "toolhead_ex = \<lparr>th_axis_count = 6,
     th_get_trapq = (\<lambda>axes. case axes of None \<Rightarrow> 0 | Some _ \<Rightarrow> 1),
     th_get_max_velocity = (300, 3000)\<rparr>"

definition config_ex :: config where
  "config_ex = \<lparr>lookup_multi_rail = (\<lambda>name.
       if name = ''stepper_a'' then Inr rail_a
       else if name = ''stepper_b'' then Inr rail_b
       else if name = ''stepper_c'' then Inr rail_c
       else Inl (ConfigError name)),
     getfloat = (\<lambda>option default above maxval.
       if option = ''max_z_velocity'' then Inr 20
       else if option = ''max_z_accel'' then Inr 100
       else Inr default)\<rparr>"

definition calls_abc :: "call list" where
  "calls_abc =
     [Add_stepper ''endstop_a'' ''stepper_b'', Add_stepper ''endstop_a'' ''stepper_b1'',
      Add_stepper ''endstop_b'' ''stepper_a'',
      Setup_itersolve rail_a ''corexy_stepper_alloc'' ''+'',
      Setup_itersolve rail_b ''corexy_stepper_alloc'' ''-'',
      Setup_itersolve rail_c ''cartesian_stepper_alloc'' ''z'',
      Set_trapq ''stepper_a'' 0, Register_step_generator ''stepper_a'',
      Set_trapq ''stepper_b'' 0, Register_step_generator ''stepper_b'',
      Set_trapq ''stepper_b1'' 0, Register_step_generator ''stepper_b1'',
      Set_trapq ''stepper_c'' 0, Register_step_generator ''stepper_c'',
      Register_event_handler ''stepper_enable:motor_off'']"

definition kin_abc :: kinematics where
  "kin_abc =
     \<lparr>axis_config = PyTuple [3, 4, 5], axis_names = ''ABC'', axis_count = 3,
      axis = [3, 4, 5], dummy_axes = [], dummy_axes_names = [],
      toolhead_axis_count = 6, trapq_of = 1, rails = [rail_a, rail_b, rail_c],
      max_z_velocity = 20, max_z_accel = 100,
      limits = [(1, -1), (1, -1), (1, -1)],
      axes_min = Coord [0, 0, -5] 0, axes_max = Coord [200, 200, 100] 0\<rparr>"

definition kin_x_homed :: kinematics where
  "kin_x_homed = kin_abc\<lparr>limits := [(0, 200), (1, -1), (1, -1)]\<rparr>"

definition kin_y_homed :: kinematics where
  "kin_y_homed = kin_abc\<lparr>limits := [(1, -1), (0, 200), (1, -1)]\<rparr>"

definition kin_xy_homed :: kinematics where
  "kin_xy_homed = kin_abc\<lparr>limits := [(0, 200), (0, 200), (1, -1)]\<rparr>"

definition kin_homed :: kinematics where
  "kin_homed = kin_abc\<lparr>limits := [(0, 200), (0, 200), (-5, 100)]\<rparr>"

definition mk_move :: "real list \<Rightarrow> real list \<Rightarrow> real \<Rightarrow> move" where
  "mk_move e d l = \<lparr>end_pos = e, axes_d = d, move_d = l, cap_velocity = 100, cap_accel = 1000\<rparr>"

definition positions_ex :: "string \<rightharpoonup> real" where
  "positions_ex = [''stepper_a'' \<mapsto> 10, ''stepper_b'' \<mapsto> 4, ''stepper_c'' \<mapsto> 2]"

section \<open>Limits and the motor-off event\<close>

text \<open>
  C6. \<open>reset_limits\<close> replaces the limits by three copies of \<open>(1.0, -1.0)\<close> and touches
  nothing else; the handler of the event \<open>stepper_enable:motor_off\<close> is \<open>reset_limits\<close>,
  whatever the time passed and whatever the limits were. So after the event each of the
  three limits is \<open>(1.0, -1.0)\<close>.
\<close>

theorem limits_after_reset:
  "reset_limits k = k\<lparr>limits := [(1, -1), (1, -1), (1, -1)]\<rparr>
   \<and> motor_off k print_time = reset_limits k
   \<and> limits (motor_off k print_time) = [(1, -1), (1, -1), (1, -1)]"
  by (simp add: reset_limits_def motor_off_def numeral_eq_Suc)

section \<open>Forward transform\<close>

text \<open>
  C3. With three rails whose measured positions are \<open>p0\<close>, \<open>p1\<close>, \<open>p2\<close>,
  \<open>calc_position\<close> returns \<open>[0.5 * (p0 + p1), 0.5 * (p0 - p1), p2]\<close>. Hence the machine
  coordinate \<open>(x, y)\<close> that the rail pair \<open>p0 = x + y\<close>, \<open>p1 = x - y\<close> stands for is what
  the transform gives back. Over the reals, which stand for the floats of the source.
\<close>

theorem calc_position_forward:
  assumes "rails k = [r0, r1, r2]"
    and "sp (get_name r0) = Some p0" and "sp (get_name r1) = Some p1"
    and "sp (get_name r2) = Some p2"
  shows "calc_position k sp = Inr [0.5 * (p0 + p1), 0.5 * (p0 - p1), p2]
       \<and> (p0 = x + y \<and> p1 = x - y \<longrightarrow> calc_position k sp = Inr [x, y, p2])"
  using assms by (simp add: calc_position_def)

theorem calc_position_forward_witness:
  "calc_position kin_abc positions_ex = Inr [7, 3, 2]"
proof -
  have r: "rails kin_abc = [rail_a, rail_b, rail_c]" by (simp add: kin_abc_def)
  have a: "positions_ex (get_name rail_a) = Some 10" by (simp add: rail_a_def positions_ex_def)
  have b: "positions_ex (get_name rail_b) = Some 4" by (simp add: rail_b_def positions_ex_def)
  have c: "positions_ex (get_name rail_c) = Some 2" by (simp add: rail_c_def positions_ex_def)
  from calc_position_forward [OF r a b c, of 7 3] show ?thesis by simp
qed

section \<open>Homing\<close>





section \<open>Move checks\<close>

lemma check_axis_cases:
  assumes "i < length (axes_d m)" "i < length (end_pos m)" "i < length (limits k)"
  shows "check_axis k m i = (if violates k m i then Inl (MoveError (reason k i)) else Inr ())"
  using assms
  by (auto simp: check_axis_def py_get_def violates_def outside_def reason_def unhomed_def
      split: prod.splits)

lemma check_endstops_cases:
  assumes "well_formed k m"
  shows "check_endstops k m =
     (if violates k m 0 then Inl (MoveError (reason k 0))
      else if violates k m 1 then Inl (MoveError (reason k 1))
      else if violates k m 2 then Inl (MoveError (reason k 2))
      else Inr ())"
proof -
  have c: "check_axis k m i = (if violates k m i then Inl (MoveError (reason k i)) else Inr ())"
    if "i < 3" for i
    using that assms by (intro check_axis_cases) (simp_all add: well_formed_def)
  have "check_endstops k m =
      (case check_axis k m 0 of Inl e \<Rightarrow> Inl e | Inr _ \<Rightarrow>
        (case check_axis k m 1 of Inl e \<Rightarrow> Inl e | Inr _ \<Rightarrow>
          (case check_axis k m 2 of Inl e \<Rightarrow> Inl e | Inr _ \<Rightarrow> Inr ())))"
    by (simp only: check_endstops_def check_axes.simps One_nat_def)
  also have "\<dots> = (if violates k m 0 then Inl (MoveError (reason k 0))
      else if violates k m 1 then Inl (MoveError (reason k 1))
      else if violates k m 2 then Inl (MoveError (reason k 2))
      else Inr ())"
    by (simp only: c [of 0] c [of 1] c [of 2]) simp
  finally show ?thesis .
qed

lemma xy_outside_cases:
  assumes "well_formed k m"
  shows "xy_outside k m = Inr (outside k m 0 \<or> outside k m 1)"
proof -
  have "2 \<le> length (end_pos m)" using assms by (simp add: well_formed_def)
  then obtain x y zs where e: "end_pos m = x # y # zs"
    by (cases "end_pos m"; simp) (rename_tac a as, case_tac as; simp)
  show ?thesis using assms
    by (auto simp: xy_outside_def e py_get_def outside_def well_formed_def split: prod.splits)
qed

lemma check_z_cases:
  assumes "well_formed k m"
  shows "check_z ls k m =
     (if axes_d m ! 2 = 0 then Inr m
      else (case check_endstops k m of Inl e \<Rightarrow> Inl e
            | Inr _ \<Rightarrow> Inr (ls m (max_z_velocity k * (move_d m / \<bar>axes_d m ! 2\<bar>))
                               (max_z_accel k * (move_d m / \<bar>axes_d m ! 2\<bar>)))))"
  using assms
  by (auto simp: check_z_def py_get_def well_formed_def Let_def split: sum.splits)

text \<open>What \<open>check_move\<close> does with a move that has its three components.\<close>

lemma check_move_cases:
  assumes "well_formed k m"
  shows "check_move ls k m =
     (if violates k m 0 then Inl (MoveError (reason k 0))
      else if violates k m 1 then Inl (MoveError (reason k 1))
      else if axes_d m ! 2 = 0 then Inr m
      else if violates k m 2 then Inl (MoveError (reason k 2))
      else Inr (ls m (max_z_velocity k * (move_d m / \<bar>axes_d m ! 2\<bar>))
                     (max_z_accel k * (move_d m / \<bar>axes_d m ! 2\<bar>))))"
proof -
  note ce = check_endstops_cases [OF assms]
  note cz = check_z_cases [OF assms, of ls]
  note xy = xy_outside_cases [OF assms]
  show ?thesis
  proof (cases "outside k m 0 \<or> outside k m 1")
    case True
    then show ?thesis
      unfolding check_move_def xy cz ce by (auto simp: violates_def)
  next
    case False
    then show ?thesis
      unfolding check_move_def xy cz ce by (auto simp: violates_def)
  qed
qed

text \<open>
  C1, as amended. If a move displaces an axis \<open>i\<close> of 0, 1, 2 and ends outside the limit
  of that axis, \<open>check_move\<close> rejects it. The reason comes from the lowest axis \<open>j \<le> i\<close>
  that the move displaces to outside its limit: \<open>Must home axis first\<close> when the limit
  of \<open>j\<close> has \<open>low > high\<close>, and the default of \<open>move_error\<close> otherwise. When \<open>i\<close> is
  itself that lowest axis, the reason is the one the state of axis \<open>i\<close> calls for.
\<close>

theorem check_move_rejects_displaced_outside:
  assumes "well_formed k m" and "i < 3" and "violates k m i"
  shows "check_move ls k m =
           Inl (MoveError (if unhomed k (first_violation k m)
                           then Some ''Must home axis first'' else None))
       \<and> violates k m (first_violation k m) \<and> first_violation k m \<le> i
       \<and> (first_violation k m = i \<longrightarrow>
            check_move ls k m =
              Inl (MoveError (if unhomed k i then Some ''Must home axis first'' else None)))"
proof -
  have i: "i = 0 \<or> i = 1 \<or> i = 2" using assms(2) by auto
  have v2: "violates k m 2 \<Longrightarrow> axes_d m ! 2 \<noteq> 0" by (simp add: violates_def)
  show ?thesis
    using i assms(3) v2 unfolding check_move_cases [OF assms(1)] first_violation_def
    by (auto simp: reason_def)
qed

theorem check_move_rejects_displaced_outside_witness:
  "first_violation kin_xy_homed (mk_move [10, 20, 5, 0] [0, 0, 5, 0] 5) = 2
   \<and> check_move limit_speed kin_xy_homed (mk_move [10, 20, 5, 0] [0, 0, 5, 0] 5)
       = Inl (MoveError (Some ''Must home axis first''))"
proof -
  let ?m = "mk_move [10, 20, 5, 0] [0, 0, 5, 0] 5"
  have w: "well_formed kin_xy_homed ?m" by code_simp
  have i: "(2::nat) < 3" by simp
  have v: "violates kin_xy_homed ?m 2" by code_simp
  have f: "first_violation kin_xy_homed ?m = 2" by code_simp
  have u: "unhomed kin_xy_homed 2" by code_simp
  from check_move_rejects_displaced_outside [OF w i v, of limit_speed] f u
  show ?thesis by simp
qed

text \<open>
  C1 as the specification words it fails where two axes are displaced to outside their
  limits and only the second is unhomed: with axis 0 homed to \<open>[0, 200]\<close> and axis 1
  unhomed, the move to \<open>(205, 10)\<close> displaces axis 1 to outside its unhomed limit, and the
  reason is the default one, not \<open>Must home axis first\<close>.
\<close>

theorem check_move_reason_counterexample:
  "well_formed kin_x_homed (mk_move [205, 10, 0, 0] [3, 4, 0, 0] 5)
   \<and> violates kin_x_homed (mk_move [205, 10, 0, 0] [3, 4, 0, 0] 5) 1
   \<and> unhomed kin_x_homed 1
   \<and> check_move limit_speed kin_x_homed (mk_move [205, 10, 0, 0] [3, 4, 0, 0] 5)
       = Inl (MoveError None)
   \<and> check_move limit_speed kin_x_homed (mk_move [205, 10, 0, 0] [3, 4, 0, 0] 5)
       \<noteq> Inl (MoveError (Some ''Must home axis first''))"
  by code_simp

text \<open>
  C7, as amended. If a move displaces axis 0 or axis 1 and ends outside the limit of that
  axis, \<open>check_move\<close> rejects it. The reason comes from axis 0 if the move displaces
  axis 0 to outside its limit and from axis 1 otherwise: \<open>Must home axis first\<close> when the
  limit of that axis has \<open>low > high\<close>, as the limit \<open>(1.0, -1.0)\<close> has, and the default of
  \<open>move_error\<close> otherwise.
\<close>

theorem check_move_rejects_xy:
  assumes "well_formed k m" and "violates k m 0 \<or> violates k m 1"
  shows "(let j = (if violates k m 0 then 0 else 1) in
           violates k m j
         \<and> check_move ls k m =
             Inl (MoveError (if unhomed k j then Some ''Must home axis first'' else None))
         \<and> (limits k ! j = (1, -1) \<longrightarrow>
              check_move ls k m = Inl (MoveError (Some ''Must home axis first''))))"
  using assms(2) unfolding check_move_cases [OF assms(1)] Let_def
  by (auto simp: reason_def unhomed_def)

theorem check_move_rejects_xy_witness:
  "limits kin_abc ! 0 = (1, -1)
   \<and> check_move limit_speed kin_abc (mk_move [5, 0, 0, 0] [5, 0, 0, 0] 5)
       = Inl (MoveError (Some ''Must home axis first''))"
proof -
  let ?m = "mk_move [5, 0, 0, 0] [5, 0, 0, 0] 5"
  have w: "well_formed kin_abc ?m" by code_simp
  have v: "violates kin_abc ?m 0" by code_simp
  then have v': "violates kin_abc ?m 0 \<or> violates kin_abc ?m 1" by simp
  have l: "limits kin_abc ! 0 = (1, -1)" by (simp add: kin_abc_def)
  have u: "unhomed kin_abc 0" by code_simp
  from check_move_rejects_xy [OF w v', of limit_speed] v l u
  show ?thesis by (simp add: Let_def)
qed

text \<open>
  C7 as the specification words it fails in two ways. A move that does not displace axis 0
  is accepted although its end position on axis 0 is outside the limit \<open>(1.0, -1.0)\<close>:
  an extrude-only move on an unhomed machine. And with axis 0 unhomed and axis 1 homed
  to \<open>[0, 200]\<close>, the move to \<open>(10, 205)\<close> ends outside the homed limit of axis 1, yet
  the reason is \<open>Must home axis first\<close>, from axis 0.
\<close>

theorem check_move_xy_outside_counterexample:
  "outside kin_abc (mk_move [0, 0, 0, 5] [0, 0, 0, 5] 5) 0
   \<and> check_move limit_speed kin_abc (mk_move [0, 0, 0, 5] [0, 0, 0, 5] 5)
       = Inr (mk_move [0, 0, 0, 5] [0, 0, 0, 5] 5)
   \<and> outside kin_y_homed (mk_move [10, 205, 0, 0] [3, 4, 0, 0] 5) 1
   \<and> limits kin_y_homed ! 1 \<noteq> (1, -1)
   \<and> \<not> unhomed kin_y_homed 1
   \<and> check_move limit_speed kin_y_homed (mk_move [10, 205, 0, 0] [3, 4, 0, 0] 5)
       = Inl (MoveError (Some ''Must home axis first''))"
  by code_simp

text \<open>
  C10. If every axis of 0, 1, 2 on which the move ends outside the limit has zero
  displacement, \<open>check_move\<close> raises nothing: it returns the move, unchanged when the
  displacement on axis 2 is zero and through \<open>limit_speed\<close> otherwise. An unhomed axis
  that the move does not displace does not get the move rejected.
\<close>

theorem check_move_accepts_undisplaced:
  assumes "well_formed k m" and "\<forall>i<3. outside k m i \<longrightarrow> axes_d m ! i = 0"
  shows "check_move ls k m =
     Inr (if axes_d m ! 2 = 0 then m
          else ls m (max_z_velocity k * (move_d m / \<bar>axes_d m ! 2\<bar>))
                    (max_z_accel k * (move_d m / \<bar>axes_d m ! 2\<bar>)))"
proof -
  have "\<not> violates k m 0" "\<not> violates k m 1" "\<not> violates k m 2"
    using assms(2) by (auto simp: violates_def)
  then show ?thesis unfolding check_move_cases [OF assms(1)] by simp
qed

theorem check_move_accepts_undisplaced_witness:
  "unhomed kin_xy_homed 2 \<and> outside kin_xy_homed (mk_move [10, 20, 0, 0] [3, 4, 0, 0] 5) 2
   \<and> check_move limit_speed kin_xy_homed (mk_move [10, 20, 0, 0] [3, 4, 0, 0] 5)
       = Inr (mk_move [10, 20, 0, 0] [3, 4, 0, 0] 5)"
proof -
  let ?m = "mk_move [10, 20, 0, 0] [3, 4, 0, 0] 5"
  have w: "well_formed kin_xy_homed ?m" by code_simp
  have o: "\<not> outside kin_xy_homed ?m 0" "\<not> outside kin_xy_homed ?m 1"
    "outside kin_xy_homed ?m 2" by code_simp+
  have d: "axes_d ?m ! 2 = 0" by code_simp
  have u: "unhomed kin_xy_homed 2" by code_simp
  have h: "\<forall>i<3. outside kin_xy_homed ?m i \<longrightarrow> axes_d ?m ! i = 0"
  proof (intro allI impI)
    fix i :: nat assume "i < 3" and "outside kin_xy_homed ?m i"
    then have "i = 2" using o by (cases "i = 0"; cases "i = 1"; simp)
    then show "axes_d ?m ! i = 0" using d by simp
  qed
  from check_move_accepts_undisplaced [OF w h, of limit_speed] d o u
  show ?thesis by simp
qed

text \<open>
  C2, as amended. A move with zero displacement on axis 2 that displaces neither axis 0
  nor axis 1 to outside its limit is returned as it is, caps included. A move with
  nonzero displacement on axis 2 that passes \<open>_check_endstops\<close> is passed to
  \<open>limit_speed\<close> with \<open>max_z_velocity * z_ratio\<close> and \<open>max_z_accel * z_ratio\<close>, where
  \<open>z_ratio = move_d / |axes_d[2]|\<close>; with \<open>limit_speed\<close> the minimum the specification
  describes, each cap becomes the minimum of its old value and the scaled one, and so
  does not rise.
\<close>

theorem check_move_z_scaling:
  assumes "well_formed k m"
  shows "(axes_d m ! 2 = 0 \<and> \<not> violates k m 0 \<and> \<not> violates k m 1 \<longrightarrow>
            check_move ls k m = Inr m)
       \<and> (axes_d m ! 2 \<noteq> 0 \<and> check_endstops k m = Inr () \<longrightarrow>
            check_move ls k m =
              Inr (ls m (max_z_velocity k * (move_d m / \<bar>axes_d m ! 2\<bar>))
                        (max_z_accel k * (move_d m / \<bar>axes_d m ! 2\<bar>)))
          \<and> (\<exists>m'. check_move limit_speed k m = Inr m'
                \<and> cap_velocity m' =
                    min (cap_velocity m) (max_z_velocity k * (move_d m / \<bar>axes_d m ! 2\<bar>))
                \<and> cap_accel m' =
                    min (cap_accel m) (max_z_accel k * (move_d m / \<bar>axes_d m ! 2\<bar>))
                \<and> cap_velocity m' \<le> cap_velocity m \<and> cap_accel m' \<le> cap_accel m))"
proof -
  have e: "\<not> violates k m 0 \<and> \<not> violates k m 1 \<and> \<not> violates k m 2"
    if "check_endstops k m = Inr ()"
    using that unfolding check_endstops_cases [OF assms] by (auto split: if_splits)
  show ?thesis
    unfolding check_move_cases [OF assms]
    by (auto simp: limit_speed_def dest: e)
qed

theorem check_move_z_scaling_witness:
  "check_move limit_speed kin_xy_homed (mk_move [10, 20, 0, 0] [0, 4, 0, 0] 4)
     = Inr (mk_move [10, 20, 0, 0] [0, 4, 0, 0] 4)
   \<and> check_move limit_speed kin_homed (mk_move [10, 20, 30, 0] [3, 0, - 4, 0] 5)
     = Inr ((mk_move [10, 20, 30, 0] [3, 0, - 4, 0] 5)\<lparr>cap_velocity := 25, cap_accel := 125\<rparr>)"
proof -
  let ?a = "mk_move [10, 20, 0, 0] [0, 4, 0, 0] 4"
  let ?b = "mk_move [10, 20, 30, 0] [3, 0, - 4, 0] 5"
  have wa: "well_formed kin_xy_homed ?a" by code_simp
  have ha: "axes_d ?a ! 2 = 0 \<and> \<not> violates kin_xy_homed ?a 0 \<and> \<not> violates kin_xy_homed ?a 1"
    by code_simp
  have wb: "well_formed kin_homed ?b" by code_simp
  have hb: "axes_d ?b ! 2 \<noteq> 0 \<and> check_endstops kin_homed ?b = Inr ()" by code_simp
  have vb: "limit_speed ?b (max_z_velocity kin_homed * (move_d ?b / \<bar>axes_d ?b ! 2\<bar>))
                (max_z_accel kin_homed * (move_d ?b / \<bar>axes_d ?b ! 2\<bar>))
            = ?b\<lparr>cap_velocity := 25, cap_accel := 125\<rparr>" by code_simp
  from check_move_z_scaling [OF wa, of limit_speed] ha
    check_move_z_scaling [OF wb, of limit_speed] hb vb
  show ?thesis by simp
qed

text \<open>
  C2 as the specification words it fails for a move with zero displacement on axis 2 that
  displaces axis 1 to outside its limit: on the unhomed machine the move to \<open>(0, -3)\<close> is
  rejected, not returned.
\<close>

theorem check_move_zero_z_counterexample:
  "axes_d (mk_move [0, - 3, 0, 0] [0, - 3, 0, 0] 3) ! 2 = 0
   \<and> check_move limit_speed kin_abc (mk_move [0, - 3, 0, 0] [0, - 3, 0, 0] 3)
       = Inl (MoveError (Some ''Must home axis first''))"
  by code_simp

section \<open>Construction\<close>

lemma and_then_Inr_iff:
  "and_then r f = (cs, Inr b) \<longleftrightarrow>
     (\<exists>cs1 a cs2. r = (cs1, Inr a) \<and> f a = (cs2, Inr b) \<and> cs = cs1 @ cs2)"
  by (auto simp: and_then_def split: prod.splits sum.splits)

lemma collect_length:
  assumes "collect f xs = Inr ys"
  shows "length ys = length xs"
  using assms by (induction xs arbitrary: ys) (auto split: sum.splits)

lemma add_steppers_calls:
  assumes "add_steppers target ss = (cs, Inr u)"
  shows "cs = map (Add_stepper (fst (get_endstops target ! 0))) ss"
  using assms
  by (induction ss arbitrary: cs) (auto split: list.splits prod.splits)

lemma cross_register_calls:
  assumes "cross_register rs = (cs, Inr u)"
  shows "1 < length rs
     \<and> cs = map (Add_stepper (fst (get_endstops (rs ! 0) ! 0))) (get_steppers (rs ! 1))
          @ map (Add_stepper (fst (get_endstops (rs ! 1) ! 0))) (get_steppers (rs ! 0))"
proof -
  from assms obtain r1 r0 c1 c2 u' where
    a: "py_get rs 1 = Inr r1" and b: "py_get rs 0 = Inr r0"
    and g: "add_steppers r0 (get_steppers r1) = (c1, Inr u')"
    and h: "add_steppers r1 (get_steppers r0) = (c2, Inr u)" and c: "cs = c1 @ c2"
    unfolding cross_register_def by (auto simp: and_then_Inr_iff pure_step_def)
  from a have r1: "1 < length rs" "r1 = rs ! 1"
    by (auto simp: py_get_def split: if_splits)
  from b have r0: "r0 = rs ! 0"
    by (auto simp: py_get_def split: if_splits)
  show ?thesis
    using add_steppers_calls [OF g] add_steppers_calls [OF h] r0 r1 c by simp
qed

lemma setup_itersolve_Inr:
  assumes "setup_itersolve rs = (cs, Inr u)"
  shows "2 < length rs"
  using assms
  by (auto simp: setup_itersolve_def and_then_Inr_iff pure_step_def py_get_def split: if_splits)

text \<open>What a constructor that returns has done.\<close>

lemma init_Inr:
  assumes "init th cfg tq ids letters = (calls, Inr k)"
  shows "\<exists>cs rest u. cross_register (rails k) = (cs, Inr u) \<and> calls = cs @ rest
     \<and> 2 < length (rails k) \<and> length (rails k) = length letters
     \<and> limits k = replicate 3 (1, -1)
     \<and> axes_min k = Coord (map (\<lambda>r. fst (get_range r)) (rails k)) 0
     \<and> axes_max k = Coord (map (\<lambda>r. snd (get_range r)) (rails k)) 0
     \<and> Register_event_handler ''stepper_enable:motor_off'' \<in> set calls"
proof -
  obtain mv ma where "th_get_max_velocity th = (mv, ma)"
    by (cases "th_get_max_velocity th")
  with assms obtain cs1 cs2 u u' where
    c: "collect (\<lambda>n. lookup_multi_rail cfg (''stepper_'' @ [n])) (map lower_char letters)
          = Inr (rails k)"
    and x: "cross_register (rails k) = (cs1, Inr u)"
    and s: "setup_itersolve (rails k) = (cs2, Inr u')"
    and l: "calls = cs1 @ cs2 @ register_steppers th (all_steppers (rails k))
          @ [Register_event_handler ''stepper_enable:motor_off'']"
    and k: "limits k = replicate 3 (1, -1)"
      "axes_min k = Coord (map (\<lambda>r. fst (get_range r)) (rails k)) 0"
      "axes_max k = Coord (map (\<lambda>r. snd (get_range r)) (rails k)) 0"
    unfolding init_def
    by (auto simp: and_then_Inr_iff pure_step_def reset_limits_def split: if_splits)
  from collect_length [OF c] have "length (rails k) = length letters" by simp
  with setup_itersolve_Inr [OF s] x l k show ?thesis by auto
qed

text \<open>The first check of the constructor: a count of indexes that differs from the count
  of letters raises the exception whose message quotes both arguments, before anything
  else is done.\<close>

lemma init_rejects_length_mismatch:
  assumes "length (items ids) \<noteq> length letters"
  shows "init th cfg tq ids letters =
     ([], Inl (Exception
        (''CartKinematicsABC: The amount of axis indexes in '' @ [CHR 0x27] @ str_seq ids
         @ [CHR 0x27] @ '' does not match the count of axis names '' @ [CHR 0x27] @ letters
         @ [CHR 0x27] @ ''.'')))"
  using assms by (simp add: init_def mismatch_msg_def)

text \<open>With fewer than three letters the constructor never returns an object, whatever
  the toolhead and the configuration are.\<close>

lemma init_needs_three_rails:
  assumes "length letters < 3"
  shows "init th cfg tq ids letters \<noteq> (calls, Inr k)"
proof
  assume "init th cfg tq ids letters = (calls, Inr k)"
  from init_Inr [OF this] assms show False by auto
qed

text \<open>The dummy axes of a triplet come in the order of the set.\<close>

lemma resolve_axes_dummy_order:
  "resolve_axes (PyTuple [6, 0, 1]) = Inr ([6, 7, 8], [8, 7], ''WV'')"
  by code_simp

lemma init_abc:
  "init toolhead_ex config_ex None (PyTuple [3, 4, 5]) ''ABC'' = (calls_abc, Inr kin_abc)"
  by code_simp

text \<open>
  C5. The specification has every construction with as many indexes as letters, at most
  three, succeed. The constructor does not do that for two letters: with the indexes \<open>(3, 4)\<close>
  and the letters \<open>AB\<close> of its own comments, and a configuration that has both rails,
  it registers the steppers with the endstops, sets up the solvers of the two rails and
  then raises \<open>IndexError\<close> at \<open>self.rails[2]\<close>.
\<close>

theorem init_two_axes_index_error:
  "length (items (PyTuple [3, 4])) = length ''AB''
   \<and> init toolhead_ex config_ex None (PyTuple [3, 4]) ''AB'' =
       ([Add_stepper ''endstop_a'' ''stepper_b'', Add_stepper ''endstop_a'' ''stepper_b1'',
         Add_stepper ''endstop_b'' ''stepper_a'',
         Setup_itersolve rail_a ''corexy_stepper_alloc'' ''+'',
         Setup_itersolve rail_b ''corexy_stepper_alloc'' ''-''],
        Inl IndexError)"
  by code_simp

text \<open>
  C9. When the constructor returns, every stepper of rail 0 has been passed to
  \<open>add_stepper\<close> of the first endstop of rail 1, and every stepper of rail 1 to
  \<open>add_stepper\<close> of the first endstop of rail 0. Rails 0 and 1 are the coupled pair of
  every object the constructor returns.
\<close>

theorem init_cross_registers_endstops:
  assumes "init th cfg tq ids letters = (calls, Inr k)"
  shows "(\<forall>s \<in> set (get_steppers (rails k ! 0)).
            Add_stepper (fst (get_endstops (rails k ! 1) ! 0)) s \<in> set calls)
       \<and> (\<forall>s \<in> set (get_steppers (rails k ! 1)).
            Add_stepper (fst (get_endstops (rails k ! 0) ! 0)) s \<in> set calls)"
proof -
  from init_Inr [OF assms] obtain cs rest u where
    c: "cross_register (rails k) = (cs, Inr u)" and l: "calls = cs @ rest"
    by blast
  from cross_register_calls [OF c] l show ?thesis by auto
qed

theorem init_cross_registers_endstops_witness:
  "init toolhead_ex config_ex None (PyTuple [3, 4, 5]) ''ABC'' = (calls_abc, Inr kin_abc)
   \<and> Add_stepper ''endstop_b'' ''stepper_a'' \<in> set calls_abc
   \<and> Add_stepper ''endstop_a'' ''stepper_b'' \<in> set calls_abc
   \<and> Add_stepper ''endstop_a'' ''stepper_b1'' \<in> set calls_abc"
proof -
  have r: "rails kin_abc = [rail_a, rail_b, rail_c]" by (simp add: kin_abc_def)
  have s: "get_steppers rail_a = [''stepper_a'']" "get_steppers rail_b = [''stepper_b'', ''stepper_b1'']"
    "get_endstops rail_a = [(''endstop_a'', ''stepper_a'')]"
    "get_endstops rail_b = [(''endstop_b'', ''stepper_b'')]"
    by (simp_all add: rail_a_def rail_b_def)
  from init_cross_registers_endstops [OF init_abc] init_abc show ?thesis
    by (simp add: r s)
qed

section \<open>Status\<close>

lemma homed_axes_cases:
  assumes "length (limits k) = 3"
  shows "homed_axes (get_status k t) =
     (if unhomed k 0 then [] else ''x'') @ (if unhomed k 1 then [] else ''y'')
     @ (if unhomed k 2 then [] else ''z'')"
proof -
  obtain a b c where l: "limits k = [a, b, c]"
    using assms by (auto simp: length_Suc_conv numeral_eq_Suc)
  show ?thesis
    by (cases a; cases b; cases c) (simp add: get_status_def l unhomed_def)
qed

text \<open>\<open>set_position\<close> changes the limits of the homing axes that have a rail, and nothing
  else of the object.\<close>

lemma set_position_loop_limits:
  assumes "set_position_loop k newpos axes i rs = Inr (k', cs)"
  shows "length (limits k') = length (limits k)
    \<and> (\<forall>j < length (limits k). limits k' ! j =
          (if j \<in> axes \<and> i \<le> j \<and> j < i + length rs then get_range (rs ! (j - i)) else limits k ! j))
    \<and> rails k' = rails k \<and> axes_min k' = axes_min k \<and> axes_max k' = axes_max k"
  using assms
proof (induction rs arbitrary: k i k' cs)
  case Nil
  then show ?case by auto
next
  case (Cons r rs)
  have ji: "j = i" if "\<not> Suc i \<le> j" "i \<le> j" for j using that by simp
  show ?case
  proof (cases "i \<in> axes")
    case True
    with Cons.prems obtain k1 cs1 where
      i: "i < length (limits k)"
      and s: "set_position_loop (k\<lparr>limits := (limits k)[i := get_range r]\<rparr>) newpos axes (Suc i) rs = Inr (k1, cs1)"
      and k: "k' = k1"
      by (auto split: if_splits sum.splits)
    from Cons.IH [OF s] k True i show ?thesis
      by (auto simp: nth_list_update Suc_diff_le less_Suc_eq_le dest: ji)
  next
    case False
    with Cons.prems obtain k1 cs1 where
      s: "set_position_loop k newpos axes (Suc i) rs = Inr (k1, cs1)"
      and k: "k' = k1"
      by (auto split: if_splits sum.splits)
    from Cons.IH [OF s] k False show ?thesis
      by (auto simp: nth_list_update Suc_diff_le less_Suc_eq_le dest: ji)
  qed
qed

lemma set_position_loop_succeeds:
  assumes "\<forall>j \<in> axes. j < length (limits k)"
  shows "\<exists>k' cs. set_position_loop k newpos axes i rs = Inr (k', cs)"
  using assms
proof (induction rs arbitrary: k i)
  case Nil
  then show ?case by simp
next
  case (Cons r rs)
  show ?case
  proof (cases "i \<in> axes")
    case True
    have "\<forall>j \<in> axes. j < length (limits (k\<lparr>limits := (limits k)[i := get_range r]\<rparr>))"
      using Cons.prems by simp
    from Cons.IH [OF this, of "Suc i"] True Cons.prems show ?thesis by auto
  next
    case False
    from Cons.IH [OF Cons.prems, of "Suc i"] False show ?thesis by auto
  qed
qed

lemma set_position_after_reset:
  assumes len: "2 \<le> length (rails k)"
    and ok: "\<forall>r \<in> set (rails k). fst (get_range r) \<le> snd (get_range r)"
  shows "\<exists>k' cs. set_position (reset_limits k) pos {0, 1} = Inr (k', cs)
              \<and> homed_axes (get_status k' t) = ''xy''"
proof -
  have r3: "length (limits (reset_limits k)) = 3" by (simp add: reset_limits_def)
  have "\<forall>j \<in> {0, 1::nat}. j < length (limits (reset_limits k))" using r3 by simp
  from set_position_loop_succeeds [OF this, of pos 0 "rails k"]
  obtain k' cs where s: "set_position (reset_limits k) pos {0, 1} = Inr (k', cs)"
    unfolding set_position_def by (auto simp: reset_limits_def)
  note f = set_position_loop_limits [OF s [unfolded set_position_def]]
  have l3: "length (limits k') = 3" using f r3 by simp
  have rk: "rails (reset_limits k) = rails k" by (simp add: reset_limits_def)
  have lr: "limits (reset_limits k) ! j = (1, -1)" if "j < 3" for j
    using that by (simp add: reset_limits_def)
  have g: "limits k' ! j =
      (if j \<in> {0, 1} \<and> j < length (rails k) then get_range (rails k ! j) else (1, -1))"
    if "j < 3" for j
    using f that r3 rk lr [OF that] by simp
  have n: "0 < length (rails k)" "1 < length (rails k)" using len by linarith+
  then have "limits k' ! 0 = get_range (rails k ! 0)"
    "limits k' ! 1 = get_range (rails k ! 1)" "limits k' ! 2 = (1, -1)"
    using g [of 0] g [of 1] g [of 2] by simp_all
  moreover have "rails k ! 0 \<in> set (rails k)" "rails k ! 1 \<in> set (rails k)"
    using n by (auto intro!: nth_mem)
  ultimately have "\<not> unhomed k' 0" "\<not> unhomed k' 1" "unhomed k' 2"
    using ok by (auto simp: unhomed_def)
  then have "homed_axes (get_status k' t) = ''xy''"
    unfolding homed_axes_cases [OF l3] by simp
  with s show ?thesis by blast
qed

text \<open>
  C8. For an object with its three limits, the string \<open>homed_axes\<close> of \<open>get_status\<close> is
  made of \<open>x\<close>, \<open>y\<close>, \<open>z\<close>, in this order, each present exactly when the limit of its slot
  has \<open>low \<le> high\<close>; the bounds are the attributes \<open>axes_min\<close> and \<open>axes_max\<close>, which a
  constructor called with three letters has set to the three minima and the three maxima
  of the ranges of the rails (and \<open>e = 0\<close>). After \<open>reset_limits\<close> the string is empty;
  a \<open>set_position\<close> with the homing axes \<open>{0, 1}\<close> that follows returns, and the string
  is then \<open>xy\<close>, for rails whose ranges have \<open>min \<le> max\<close>.
\<close>

theorem status_reports_homed_axes:
  assumes "length (limits k) = 3"
  shows "homed_axes (get_status k t) =
           (if unhomed k 0 then [] else ''x'') @ (if unhomed k 1 then [] else ''y'')
           @ (if unhomed k 2 then [] else ''z'')
       \<and> axis_minimum (get_status k t) = axes_min k
       \<and> axis_maximum (get_status k t) = axes_max k
       \<and> (init th cfg tq ids letters = (calls, Inr k) \<and> length letters = 3 \<longrightarrow>
            axes_min k = Coord [fst (get_range (rails k ! 0)), fst (get_range (rails k ! 1)),
                               fst (get_range (rails k ! 2))] 0
          \<and> axes_max k = Coord [snd (get_range (rails k ! 0)), snd (get_range (rails k ! 1)),
                               snd (get_range (rails k ! 2))] 0)
       \<and> homed_axes (get_status (reset_limits k) t) = []
       \<and> (2 \<le> length (rails k)
            \<and> (\<forall>r \<in> set (rails k). fst (get_range r) \<le> snd (get_range r)) \<longrightarrow>
          (\<exists>k' cs. set_position (reset_limits k) pos {0, 1} = Inr (k', cs)
              \<and> homed_axes (get_status k' t) = ''xy''))"
proof -
  have r3: "length (limits (reset_limits k)) = 3" by (simp add: reset_limits_def)
  have a: "homed_axes (get_status (reset_limits k) t) = []"
    unfolding homed_axes_cases [OF r3] by (simp add: unhomed_def reset_limits_def)
  have c: "axes_min k = Coord [fst (get_range (rails k ! 0)), fst (get_range (rails k ! 1)),
                               fst (get_range (rails k ! 2))] 0
          \<and> axes_max k = Coord [snd (get_range (rails k ! 0)), snd (get_range (rails k ! 1)),
                               snd (get_range (rails k ! 2))] 0"
    if i: "init th cfg tq ids letters = (calls, Inr k)" and l: "length letters = 3"
  proof -
    from init_Inr [OF i] l have n: "length (rails k) = 3"
      and m: "axes_min k = Coord (map (\<lambda>r. fst (get_range r)) (rails k)) 0"
        "axes_max k = Coord (map (\<lambda>r. snd (get_range r)) (rails k)) 0"
      by auto
    from n obtain r0 r1 r2 where "rails k = [r0, r1, r2]"
      by (auto simp: length_Suc_conv numeral_eq_Suc)
    with m show ?thesis by simp
  qed
  show ?thesis
    using homed_axes_cases [OF assms, of t] a c set_position_after_reset [of k pos t]
    by (simp add: get_status_def)
qed

theorem status_reports_homed_axes_witness:
  "homed_axes (get_status kin_homed 0) = ''xyz''
   \<and> axis_minimum (get_status kin_abc 0) = Coord [0, 0, - 5] 0
   \<and> axis_maximum (get_status kin_abc 0) = Coord [200, 200, 100] 0
   \<and> homed_axes (get_status (reset_limits kin_abc) 0) = []
   \<and> set_position (reset_limits kin_abc) [0, 0, 0, 0] {0, 1} =
       Inr (kin_xy_homed,
            [Rail_set_position rail_a [0, 0, 0, 0], Rail_set_position rail_b [0, 0, 0, 0],
             Rail_set_position rail_c [0, 0, 0, 0]])
   \<and> homed_axes (get_status kin_xy_homed 0) = ''xy''"
proof -
  have l: "length (limits kin_abc) = 3" by (simp add: kin_abc_def)
  have l': "length (limits kin_homed) = 3" by (simp add: kin_homed_def kin_abc_def)
  have u: "\<not> unhomed kin_homed 0" "\<not> unhomed kin_homed 1" "\<not> unhomed kin_homed 2"
    by code_simp+
  have n: "length ''ABC'' = 3" by simp
  have r: "2 \<le> length (rails kin_abc)
      \<and> (\<forall>r \<in> set (rails kin_abc). fst (get_range r) \<le> snd (get_range r))"
    by (simp add: kin_abc_def rail_a_def rail_b_def rail_c_def)
  have s: "set_position (reset_limits kin_abc) [0, 0, 0, 0] {0, 1} =
       Inr (kin_xy_homed,
            [Rail_set_position rail_a [0, 0, 0, 0], Rail_set_position rail_b [0, 0, 0, 0],
             Rail_set_position rail_c [0, 0, 0, 0]])"
    by code_simp
  have g: "fst (get_range (rails kin_abc ! 0)) = 0" "fst (get_range (rails kin_abc ! 1)) = 0"
    "fst (get_range (rails kin_abc ! 2)) = - 5" "snd (get_range (rails kin_abc ! 0)) = 200"
    "snd (get_range (rails kin_abc ! 1)) = 200" "snd (get_range (rails kin_abc ! 2)) = 100"
    by (simp_all add: kin_abc_def rail_a_def rail_b_def rail_c_def)
  from status_reports_homed_axes [OF l', of 0] u
  have 1: "homed_axes (get_status kin_homed 0) = ''xyz''" by simp
  from status_reports_homed_axes [OF l, of 0 toolhead_ex config_ex None "PyTuple [3, 4, 5]"
      "''ABC''" calls_abc "[0, 0, 0, 0]"] init_abc n r s g
  have 2: "axis_minimum (get_status kin_abc 0) = Coord [0, 0, - 5] 0
   \<and> axis_maximum (get_status kin_abc 0) = Coord [200, 200, 100] 0
   \<and> homed_axes (get_status (reset_limits kin_abc) 0) = []
   \<and> homed_axes (get_status kin_xy_homed 0) = ''xy''"
    by simp
  from 1 2 s show ?thesis by simp
qed

end
